theory Spec2Isabelle
  imports Complex_Main "HOL-Library.AList" "HOL-Library.Multiset"
begin

section \<open>Values exchanged with the backend\<close>

text \<open>
  The dashboards hold whatever \<^verbatim>\<open>response.json()\<close> returns, so the data are JavaScript
  values built from JSON. An object keeps its properties in insertion order, as an
  association list. \<open>JUndefined\<close> is the value of a missing property.

  A number that is compared (\<^verbatim>\<open>getRiskClass\<close>) is a real or \<open>NaN\<close>: the comparison of two
  doubles is exact, so \<open>js_lt\<close> is the comparison of the code on every finite number and on
  \<open>NaN\<close>. Numbers that are added are not modelled this way, since the sum of two doubles
  is rounded: see \<open>numbers\<close> below.
\<close>

datatype number = NaN | Num real

datatype json =
    JUndefined
  | JNull
  | JBool bool
  | JNum real
  | JStr string
  | JArr "json list"
  | JObj "(string \<times> json) list"

fun nullish :: "json \<Rightarrow> bool" where
  "nullish JUndefined = True"
| "nullish JNull = True"
| "nullish _ = False"

text \<open>
  \<^verbatim>\<open>v.k\<close>: reading a property of \<^verbatim>\<open>null\<close> or \<^verbatim>\<open>undefined\<close> throws a TypeError
  (\<open>None\<close>); a property that is not there reads as \<^verbatim>\<open>undefined\<close>. The names read by
  the code (\<^verbatim>\<open>status\<close>, \<^verbatim>\<open>positions\<close>, ...) are none of the built-in properties of
  strings, arrays or \<^verbatim>\<open>Object.prototype\<close>.
\<close>

fun get_prop :: "json \<Rightarrow> string \<Rightarrow> json option" where
  "get_prop JUndefined k = None"
| "get_prop JNull k = None"
| "get_prop (JObj kvs) k = Some (case map_of kvs k of None \<Rightarrow> JUndefined | Some v \<Rightarrow> v)"
| "get_prop v k = Some JUndefined"


text \<open>Truthiness, as \<^verbatim>\<open>!v\<close>, \<^verbatim>\<open>v || d\<close> and \<^verbatim>\<open>c ? a : b\<close> read it.\<close>

fun truthy :: "json \<Rightarrow> bool" where
  "truthy JUndefined = False"
| "truthy JNull = False"
| "truthy (JBool b) = b"
| "truthy (JNum x) = (x \<noteq> 0)"
| "truthy (JStr s) = (s \<noteq> [])"
| "truthy (JArr xs) = True"
| "truthy (JObj kvs) = True"

fun js_lt :: "number \<Rightarrow> number \<Rightarrow> bool" where
  "js_lt (Num x) (Num y) = (x < y)"
| "js_lt _ _ = False"

fun js_ge :: "number \<Rightarrow> number \<Rightarrow> bool" where
  "js_ge (Num x) (Num y) = (x \<ge> y)"
| "js_ge _ _ = False"

text \<open>
  The arithmetic of the platform, for the code that adds (\<^verbatim>\<open>updatePnlChart\<close>). The
  numbers are IEEE doubles, whose sum is rounded, may overflow to an infinity and is
  \<open>NaN\<close> for opposite infinities; none of this is the repository's, so the numbers are a
  type \<open>'n\<close> and the four things the code does with them are parameters:
  \<^verbatim>\<open>parseFloat(v)\<close>, \<^verbatim>\<open>a + b\<close> on two numbers, the literal \<^verbatim>\<open>0\<close>, and whether a number
  is falsy (the test of \<^verbatim>\<open>||\<close>; on doubles: \<open>0\<close>, \<open>-0\<close> and \<open>NaN\<close>).
\<close>

record 'n numbers =
  parseFloat :: "json \<Rightarrow> 'n"
  js_plus :: "'n \<Rightarrow> 'n \<Rightarrow> 'n"
  js_zero :: 'n
  js_falsy :: "'n \<Rightarrow> bool"

section \<open>The network and what the user is shown\<close>

text \<open>
  \<^verbatim>\<open>fetch\<close> rejects on a network failure; otherwise it resolves, whatever the HTTP status,
  and \<^verbatim>\<open>response.json()\<close> rejects when the body is not JSON. The response to each request
  is an input of the operation that awaits it.
\<close>

datatype response = NetworkError | BadJson | Json json

datatype verb = GET | POST

text \<open>
  A URL written as a template literal is kept as its parts: \<open>Sub v\<close> is \<^verbatim>\<open>${v}\<close>, the
  platform's string form of \<open>v\<close>.
\<close>

datatype part = Lit string | Sub json

type_synonym url = "part list"

text \<open>
  The message texts are Chinese string literals; each constructor stands for the literal
  at the source line given. A \<^verbatim>\<open>catch\<close> block logs its text followed by the error
  caught.
\<close>

datatype msg =
    LoadDashboardFailed       \<comment> \<open>app.js 177, 178\<close>
  | LoadStrategiesFailed      \<comment> \<open>app.js 188, 189\<close>
  | LoadPositionsFailed       \<comment> \<open>app.js 200, 201\<close>
  | LoadRiskFailed            \<comment> \<open>app.js 212, 213\<close>
  | LoadSettingsFailed        \<comment> \<open>app.js 225, 226\<close>
  | StrategyActionFailed      \<comment> \<open>app.js 239, 240\<close>
  | CreateStrategyFailed      \<comment> \<open>app.js 263, 264\<close>
  | ClosePositionFailed       \<comment> \<open>app.js 276, 277\<close>
  | HandleAlertFailed         \<comment> \<open>app.js 289, 290\<close>
  | RiskSettingsSaved         \<comment> \<open>app.js 303\<close>
  | SaveRiskSettingsFailed    \<comment> \<open>app.js 305, 306\<close>
  | ConnectionTested json bool \<comment> \<open>app.js 325: the exchange's name, and whether it connected\<close>
  | TestConnectionFailed      \<comment> \<open>app.js 327, 328\<close>
  | SettingsSaved             \<comment> \<open>app.js 345\<close>
  | SaveSettingsFailed        \<comment> \<open>app.js 347, 348\<close>
  | NewStrategyTitle          \<comment> \<open>app.js 245\<close>
  | CreateLabel               \<comment> \<open>app.js 246\<close>
  | ConfirmLabel              \<comment> \<open>app.js 9\<close>
  | NoText                    \<comment> \<open>app.js 8: the empty string\<close>
  | StrategyListFailed        \<comment> \<open>dashboard.js 113\<close>
  | UpdateOverviewFailed      \<comment> \<open>dashboard.js 197\<close>
  | UpdatePositionsFailed     \<comment> \<open>dashboard.js 231\<close>
  | UpdateChartsFailed        \<comment> \<open>dashboard.js 251\<close>
  | StrategyEnabled string    \<comment> \<open>dashboard.js 288: the strategy's name, then the literal\<close>
  | StrategyDisabled string   \<comment> \<open>dashboard.js 290: the strategy's name, then the literal\<close>
  | ToggleStrategyFailed      \<comment> \<open>dashboard.js 296\<close>
  | TryAgain                  \<comment> \<open>dashboard.js 297\<close>
  | PositionClosed            \<comment> \<open>dashboard.js 405\<close>
  | ClosePositionRejected json \<comment> \<open>dashboard.js 408: the literal, then \<^verbatim>\<open>result.message\<close>\<close>
  | CloseOperationFailed      \<comment> \<open>dashboard.js 412\<close>
  | CloseOperationTryAgain    \<comment> \<open>dashboard.js 413\<close>

datatype level = Success | Warning | Error | Info

text \<open>
  What an operation does to the outside is recorded in order: the requests it sends, the
  lines it logs with \<^verbatim>\<open>console.error\<close>, and the notifications it raises
  (\<^verbatim>\<open>showError\<close> and \<^verbatim>\<open>showSuccess\<close> in the Vue client, \<^verbatim>\<open>showNotification\<close> in
  the dashboard script).
\<close>

datatype event =
    Fetch verb url "json option"
  | ConsoleError msg
  | ShowError msg
  | ShowSuccess msg
  | Notify msg level

fun is_error_notice :: "event \<Rightarrow> bool" where
  "is_error_notice (ShowError m) = True"
| "is_error_notice (Notify m l) = (l = Error)"
| "is_error_notice _ = False"

definition error_notices :: "event list \<Rightarrow> nat" where
  "error_notices evs = length (filter is_error_notice evs)"

definition fetches :: "verb \<Rightarrow> url \<Rightarrow> event list \<Rightarrow> nat" where
  "fetches m u evs = length (filter (\<lambda>e. case e of Fetch m' u' b \<Rightarrow> m' = m \<and> u' = u | _ \<Rightarrow> False) evs)"

fun is_fetch :: "event \<Rightarrow> bool" where
  "is_fetch (Fetch m u b) = True"
| "is_fetch _ = False"

fun is_post :: "event \<Rightarrow> bool" where
  "is_post (Fetch m u b) = (m = POST)"
| "is_post _ = False"

section \<open>The Vue client (bot_6/static/js/app.js)\<close>

text \<open>
  The state is the component's \<^verbatim>\<open>data\<close>, with the record of events beside it. A method
  that awaits a request takes the response as an argument and runs to its end: what two
  methods with pending requests do to each other is not part of this development.
\<close>

datatype callback = CreateStrategy

record vue =
  currentPage :: string
  sidebarCollapsed :: bool
  showModal :: bool
  modalTitle :: msg
  modalConfirmText :: msg
  modalCallback :: "callback option"
  accountStats :: json
  strategies :: json
  strategyFilter :: json
  positions :: json
  positionStats :: json
  riskMetrics :: json
  riskAlerts :: json
  riskSettings :: json
  exchanges :: json
  notificationSettings :: json
  systemSettings :: json
  events :: "event list"

definition emit :: "event \<Rightarrow> vue \<Rightarrow> vue" where
  "emit e s = s\<lparr>events := events s @ [e]\<rparr>"

text \<open>
  \<^verbatim>\<open>showError\<close> and \<^verbatim>\<open>showSuccess\<close> are the client's notifications. Their bodies are
  placeholders that write the message to the console; a call is recorded as the
  notification it stands for.
\<close>

definition showError :: "msg \<Rightarrow> vue \<Rightarrow> vue" where
  "showError m s = emit (ShowError m) s"

definition showSuccess :: "msg \<Rightarrow> vue \<Rightarrow> vue" where
  "showSuccess m s = emit (ShowSuccess m) s"

text \<open>The \<^verbatim>\<open>catch\<close> block every method ends with: log, then notify.\<close>

definition caught :: "msg \<Rightarrow> vue \<Rightarrow> vue" where
  "caught m s = showError m (emit (ConsoleError m) s)"


definition toggleSidebar :: "vue \<Rightarrow> vue" where
  "toggleSidebar s = s\<lparr>sidebarCollapsed := \<not> sidebarCollapsed s\<rparr>"

definition showNewStrategyModal :: "vue \<Rightarrow> vue" where
  "showNewStrategyModal s =
     s\<lparr>modalTitle := NewStrategyTitle, modalConfirmText := CreateLabel,
       showModal := True, modalCallback := Some CreateStrategy\<rparr>"

subsection \<open>Loading a page\<close>

text \<open>
  \<^verbatim>\<open>loadDashboardData\<close> stores the account statistics and then calls
  \<^verbatim>\<open>this.updateCharts\<close>, which the component does not define: the call throws, and the
  \<^verbatim>\<open>catch\<close> block runs although the fetch succeeded.
\<close>

definition loadDashboardData :: "response \<Rightarrow> vue \<Rightarrow> vue" where
  "loadDashboardData r s =
     (let s1 = emit (Fetch GET [Lit ''/api/dashboard''] None) s in
      case r of
        Json d \<Rightarrow>
          (case get_prop d ''accountStats'' of
             Some a \<Rightarrow> caught LoadDashboardFailed (s1\<lparr>accountStats := a\<rparr>)
           | None \<Rightarrow> caught LoadDashboardFailed s1)
      | _ \<Rightarrow> caught LoadDashboardFailed s1)"

definition loadStrategies :: "response \<Rightarrow> vue \<Rightarrow> vue" where
  "loadStrategies r s =
     (let s1 = emit (Fetch GET [Lit ''/api/strategies''] None) s in
      case r of
        Json d \<Rightarrow>
          (case get_prop d ''strategies'' of
             Some v \<Rightarrow> s1\<lparr>strategies := v\<rparr>
           | None \<Rightarrow> caught LoadStrategiesFailed s1)
      | _ \<Rightarrow> caught LoadStrategiesFailed s1)"

definition loadPositions :: "response \<Rightarrow> vue \<Rightarrow> vue" where
  "loadPositions r s =
     (let s1 = emit (Fetch GET [Lit ''/api/positions''] None) s in
      case r of
        Json d \<Rightarrow>
          (case (get_prop d ''positions'', get_prop d ''stats'') of
             (Some p, Some st) \<Rightarrow> s1\<lparr>positions := p, positionStats := st\<rparr>
           | _ \<Rightarrow> caught LoadPositionsFailed s1)
      | _ \<Rightarrow> caught LoadPositionsFailed s1)"

definition loadRiskData :: "response \<Rightarrow> vue \<Rightarrow> vue" where
  "loadRiskData r s =
     (let s1 = emit (Fetch GET [Lit ''/api/risk/metrics''] None) s in
      case r of
        Json d \<Rightarrow>
          (case (get_prop d ''metrics'', get_prop d ''alerts'') of
             (Some m, Some a) \<Rightarrow> s1\<lparr>riskMetrics := m, riskAlerts := a\<rparr>
           | _ \<Rightarrow> caught LoadRiskFailed s1)
      | _ \<Rightarrow> caught LoadRiskFailed s1)"

definition loadSettings :: "response \<Rightarrow> vue \<Rightarrow> vue" where
  "loadSettings r s =
     (let s1 = emit (Fetch GET [Lit ''/api/settings''] None) s in
      case r of
        Json d \<Rightarrow>
          (case (get_prop d ''exchanges'', get_prop d ''notification'', get_prop d ''system'') of
             (Some e, Some n, Some y) \<Rightarrow>
               s1\<lparr>exchanges := e, notificationSettings := n, systemSettings := y\<rparr>
           | _ \<Rightarrow> caught LoadSettingsFailed s1)
      | _ \<Rightarrow> caught LoadSettingsFailed s1)"

definition loadPageData :: "string \<Rightarrow> response \<Rightarrow> vue \<Rightarrow> vue" where
  "loadPageData page r s =
     (if page = ''dashboard'' then loadDashboardData r s
      else if page = ''strategies'' then loadStrategies r s
      else if page = ''positions'' then loadPositions r s
      else if page = ''risk'' then loadRiskData r s
      else if page = ''settings'' then loadSettings r s
      else s)"

definition changePage :: "string \<Rightarrow> response \<Rightarrow> vue \<Rightarrow> vue" where
  "changePage page r s = loadPageData page r (s\<lparr>currentPage := page\<rparr>)"

subsection \<open>User actions\<close>

text \<open>
  Each action is one \<^verbatim>\<open>try\<close> block. The POST is awaited but its response is not read:
  whenever \<^verbatim>\<open>fetch\<close> resolves, the page's list is loaded again. The arguments are the
  object the template passes (a strategy, a position, an alert), the response to the
  POST and the response to the GET that follows.
\<close>

definition toggleStrategy :: "json \<Rightarrow> response \<Rightarrow> response \<Rightarrow> vue \<Rightarrow> vue" where
  "toggleStrategy strategy post get s =
     (case (get_prop strategy ''status'', get_prop strategy ''id'') of
        (Some st, Some i) \<Rightarrow>
          (let action = (if st = JStr ''active'' then ''pause'' else ''start'');
               s1 = emit (Fetch POST [Lit ''/api/strategies/'', Sub i, Lit ''/'', Lit action] None) s
           in case post of
                NetworkError \<Rightarrow> caught StrategyActionFailed s1
              | _ \<Rightarrow> loadStrategies get s1)
      | _ \<Rightarrow> caught StrategyActionFailed s)"



definition handleAlert :: "json \<Rightarrow> response \<Rightarrow> response \<Rightarrow> vue \<Rightarrow> vue" where
  "handleAlert alert post get s =
     (case get_prop alert ''id'' of
        Some i \<Rightarrow>
          (let s1 = emit (Fetch POST [Lit ''/api/risk/alerts/'', Sub i, Lit ''/handle''] None) s in
           case post of
             NetworkError \<Rightarrow> caught HandleAlertFailed s1
           | _ \<Rightarrow> loadRiskData get s1)
      | None \<Rightarrow> caught HandleAlertFailed s)"




subsection \<open>Helpers and start-up\<close>

definition getRiskClass :: "number \<Rightarrow> string" where
  "getRiskClass v =
     (if js_lt v (Num 0.5) then ''low-risk''
      else if js_lt v (Num 0.8) then ''medium-risk''
      else ''high-risk'')"

text \<open>The component's \<^verbatim>\<open>data\<close>: the state before anything is fetched.\<close>

definition init :: vue where
  "init = \<lparr>
     currentPage = ''dashboard'',
     sidebarCollapsed = False,
     showModal = False,
     modalTitle = NoText,
     modalConfirmText = ConfirmLabel,
     modalCallback = None,
     accountStats = JObj [(''totalValue'', JNum 0), (''dayChange'', JNum 0), (''dayPnL'', JNum 0),
       (''dayPnLPercent'', JNum 0), (''totalPositions'', JNum 0), (''availableMargin'', JNum 0),
       (''riskLevel'', JStr ''low''), (''leverage'', JNum 0)],
     strategies = JArr [],
     strategyFilter = JObj [(''type'', JStr []), (''status'', JStr []), (''search'', JStr [])],
     positions = JArr [],
     positionStats = JObj [(''totalValue'', JNum 0), (''positionCount'', JNum 0),
       (''unrealizedPnL'', JNum 0), (''unrealizedPnLPercent'', JNum 0), (''marginUsage'', JNum 0),
       (''availableMargin'', JNum 0), (''riskLevel'', JStr ''low''), (''leverage'', JNum 0)],
     riskMetrics = JObj [
       (''overall'', JObj [(''score'', JNum 0), (''level'', JStr ''low''), (''updateTime'', JNull)]),
       (''position'', JObj [(''leverage'', JNum 0), (''concentration'', JNum 0), (''volatility'', JNum 0)]),
       (''capital'', JObj [(''marginUsage'', JNum 0), (''dailyLoss'', JNum 0), (''drawdown'', JNum 0)])],
     riskAlerts = JArr [],
     riskSettings = JObj [(''maxLossPerTrade'', JNum 2), (''maxDailyLoss'', JNum 5),
       (''maxLeverage'', JNum 5), (''maxSinglePosition'', JNum 20), (''drawdownAlert'', JNum 10),
       (''volatilityAlert'', JNum 3)],
     exchanges = JArr [
       JObj [(''id'', JStr ''binance''), (''name'', JStr ''Binance''), (''apiKey'', JStr []),
             (''secretKey'', JStr []), (''enabled'', JBool False), (''status'', JStr ''DISCONNECTED'')],
       JObj [(''id'', JStr ''okx''), (''name'', JStr ''OKX''), (''apiKey'', JStr []),
             (''secretKey'', JStr []), (''enabled'', JBool False), (''status'', JStr ''DISCONNECTED'')]],
     notificationSettings = JObj [
       (''smtp'', JObj [(''server'', JStr []), (''email'', JStr []), (''password'', JStr [])]),
       (''telegram'', JObj [(''token'', JStr []), (''chatId'', JStr [])])],
     systemSettings = JObj [
       (''database'', JObj [(''type'', JStr ''sqlite''), (''host'', JStr ''localhost''),
          (''port'', JNum 3306), (''name'', JStr ''trading_bot''), (''username'', JStr []),
          (''password'', JStr [])]),
       (''logging'', JObj [(''level'', JStr ''INFO''), (''retention'', JNum 30), (''console'', JBool True)])],
     events = []
   \<rparr>"

text \<open>
  \<^verbatim>\<open>mounted\<close> loads the dashboard page and starts a timer; every firing of the timer
  runs \<open>poll\<close>. The timer itself belongs to the browser: only its period and its
  callback are the program's.
\<close>

definition mounted :: "response \<Rightarrow> vue \<Rightarrow> vue" where
  "mounted r s = loadPageData ''dashboard'' r s"

definition poll_period :: nat where
  "poll_period = 30000"

definition poll :: "response \<Rightarrow> vue \<Rightarrow> vue" where
  "poll r s = loadPageData (currentPage s) r s"

text \<open>The part of the state a page shows: everything but the record of events.\<close>

definition shown :: "vue \<Rightarrow> vue" where
  "shown s = s\<lparr>events := []\<rparr>"

definition since :: "vue \<Rightarrow> vue \<Rightarrow> event list" where
  "since s s' = drop (length (events s)) (events s')"

section \<open>The dashboard script (dashboard.js, loaded by bot_cl3/web/templates/index.html)\<close>

text \<open>
  This client keeps what it fetched in the page itself. The page is modelled by the
  elements that carry an id (in document order, each with whether it has the classes
  \<^verbatim>\<open>panel\<close> and \<^verbatim>\<open>active\<close>), the navigation links, the values last written into the
  overview cards, the strategy cards and the position rows, and the two charts. The HTML
  text produced from a value is a function of that value, so the value stands for it.
  The configuration panel (\<^verbatim>\<open>loadConfig\<close>, \<^verbatim>\<open>saveConfig\<close>, \<^verbatim>\<open>resetConfig\<close>) is not
  part of this development.
\<close>

datatype element = Element (el_id: string) (is_panel: bool) (is_active: bool)

datatype link = Link (href: string) (link_active: bool)

record 'n dashboard =
  elements :: "element list"
  links :: "link list"
  overview :: "json option"
  strategy_cards :: "json list option"
  position_rows :: "json list option"
  equity :: "(json list \<times> json list) option"
  pnl :: "(string list \<times> 'n list) option"
  updateInterval :: "nat option"
  d_events :: "event list"

text \<open>A function that may throw leaves the page in some state either way.\<close>

datatype 'a outcome = Threw 'a | Returned 'a

fun state_of :: "'a outcome \<Rightarrow> 'a" where
  "state_of (Threw d) = d"
| "state_of (Returned d) = d"

definition record_event :: "event \<Rightarrow> 'n dashboard \<Rightarrow> 'n dashboard" where
  "record_event e d = d\<lparr>d_events := d_events d @ [e]\<rparr>"

definition showNotification :: "msg \<Rightarrow> level \<Rightarrow> 'n dashboard \<Rightarrow> 'n dashboard" where
  "showNotification m l d = record_event (Notify m l) d"

definition initializeCharts :: "'n dashboard \<Rightarrow> 'n dashboard" where
  "initializeCharts d = d\<lparr>equity := Some ([], []), pnl := Some ([], [])\<rparr>"

subsection \<open>Loading\<close>

text \<open>
  Each loader builds the whole HTML text before it assigns it, so a value it cannot
  render (not an array, a \<^verbatim>\<open>null\<close> entry, a strategy without \<^verbatim>\<open>performance\<close>)
  throws before the page is touched. The \<^verbatim>\<open>catch\<close> block of a loader only logs.
\<close>

definition strategy_renders :: "json \<Rightarrow> bool" where
  "strategy_renders x = (case get_prop x ''performance'' of Some p \<Rightarrow> \<not> nullish p | None \<Rightarrow> False)"

definition loadStrategies_dash :: "response \<Rightarrow> 'n dashboard \<Rightarrow> 'n dashboard" where
  "loadStrategies_dash r d =
     (let d1 = record_event (Fetch GET [Lit ''/api/strategy/list''] None) d in
      case r of
        Json (JArr xs) \<Rightarrow>
          (if list_all strategy_renders xs then d1\<lparr>strategy_cards := Some xs\<rparr>
           else record_event (ConsoleError StrategyListFailed) d1)
      | _ \<Rightarrow> record_event (ConsoleError StrategyListFailed) d1)"

definition updateOverview :: "response \<Rightarrow> 'n dashboard \<Rightarrow> 'n dashboard" where
  "updateOverview r d =
     (let d1 = record_event (Fetch GET [Lit ''/api/monitor/overview''] None) d in
      case r of
        Json v \<Rightarrow>
          (case get_prop v ''total_equity'' of
             Some te \<Rightarrow>
               (if nullish te then record_event (ConsoleError UpdateOverviewFailed) d1
                else d1\<lparr>overview := Some v\<rparr>)
           | None \<Rightarrow> record_event (ConsoleError UpdateOverviewFailed) d1)
      | _ \<Rightarrow> record_event (ConsoleError UpdateOverviewFailed) d1)"

definition updatePositions :: "response \<Rightarrow> 'n dashboard \<Rightarrow> 'n dashboard" where
  "updatePositions r d =
     (let d1 = record_event (Fetch GET [Lit ''/api/monitor/positions''] None) d in
      case r of
        Json (JArr xs) \<Rightarrow>
          (if list_all (\<lambda>pos. \<not> nullish pos) xs then d1\<lparr>position_rows := Some xs\<rparr>
           else record_event (ConsoleError UpdatePositionsFailed) d1)
      | _ \<Rightarrow> record_event (ConsoleError UpdatePositionsFailed) d1)"

subsection \<open>Charts\<close>

text \<open>\<^verbatim>\<open>xs.map(item => item.k)\<close>; \<open>None\<close> when an item is \<^verbatim>\<open>null\<close>.\<close>

definition map_prop :: "string \<Rightarrow> json list \<Rightarrow> json list option" where
  "map_prop k xs = those (map (\<lambda>x. get_prop x k) xs)"

definition updateEquityChart :: "json \<Rightarrow> 'n dashboard \<Rightarrow> 'n dashboard outcome" where
  "updateEquityChart equityHistory d =
     (if \<not> truthy equityHistory \<or> equity d = None then Returned d
      else case equityHistory of
        JArr xs \<Rightarrow>
          (case (map_prop ''time'' xs, map_prop ''equity'' xs) of
             (Some ts, Some es) \<Rightarrow> Returned (d\<lparr>equity := Some (ts, es)\<rparr>)
           | _ \<Rightarrow> Threw d)
      | _ \<Rightarrow> Threw d)"

text \<open>
  \<^verbatim>\<open>dailyPnl\<close> is an object used as a dictionary: an association list in insertion
  order. \<^verbatim>\<open>(dailyPnl[date] || 0)\<close> is \<open>0\<close> for a date not yet there (\<^verbatim>\<open>undefined\<close>) and
  for a stored number that is falsy, and the stored number otherwise. The arithmetic is
  the platform's, \<open>N\<close>. Only the own properties of \<^verbatim>\<open>dailyPnl\<close> are modelled: a date is
  not the name of a property inherited from \<^verbatim>\<open>Object.prototype\<close>.
\<close>

definition or_zero :: "'n numbers \<Rightarrow> 'n option \<Rightarrow> 'n" where
  "or_zero N stored =
     (case stored of
        None \<Rightarrow> js_zero N
      | Some x \<Rightarrow> if js_falsy N x then js_zero N else x)"

definition date_of :: "string \<Rightarrow> string" where
  "date_of t = takeWhile (\<lambda>c. c \<noteq> CHR ''T'') t"

text \<open>One round of the \<^verbatim>\<open>forEach\<close>; \<open>None\<close> when \<^verbatim>\<open>trade.time.split\<close> throws.\<close>

definition add_trade :: "'n numbers \<Rightarrow> json \<Rightarrow> (string \<times> 'n) list \<Rightarrow> (string \<times> 'n) list option" where
  "add_trade N trade dailyPnl =
     (case (get_prop trade ''time'', get_prop trade ''profit'') of
        (Some (JStr t), Some p) \<Rightarrow>
          Some (AList.update (date_of t)
                  (js_plus N (or_zero N (map_of dailyPnl (date_of t))) (parseFloat N p)) dailyPnl)
      | _ \<Rightarrow> None)"

fun add_trades :: "'n numbers \<Rightarrow> json list \<Rightarrow> (string \<times> 'n) list \<Rightarrow> (string \<times> 'n) list option" where
  "add_trades N [] dailyPnl = Some dailyPnl"
| "add_trades N (trade # trades) dailyPnl =
     (case add_trade N trade dailyPnl of
        None \<Rightarrow> None
      | Some dailyPnl' \<Rightarrow> add_trades N trades dailyPnl')"

text \<open>
  \<^verbatim>\<open>Object.keys\<close> and \<^verbatim>\<open>Object.values\<close> list the own properties in the same order:
  first the keys that are array indices (\<open>0\<close>, or digits without a leading zero, below
  \<open>2^32 - 1\<close>) by ascending value, then the other keys as they were inserted.
\<close>

definition digit_value :: "char \<Rightarrow> nat" where
  "digit_value c = of_char c - 48"

definition is_digit :: "char \<Rightarrow> bool" where
  "is_digit c = (48 \<le> (of_char c :: nat) \<and> (of_char c :: nat) \<le> 57)"

definition index_value :: "string \<Rightarrow> nat" where
  "index_value k = foldl (\<lambda>n c. 10 * n + digit_value c) 0 k"

definition is_array_index :: "string \<Rightarrow> bool" where
  "is_array_index k =
     (k \<noteq> [] \<and> list_all is_digit k \<and> (hd k = CHR ''0'' \<longrightarrow> length k = 1)
      \<and> index_value k < 2 ^ 32 - 1)"

definition own_properties :: "(string \<times> 'v) list \<Rightarrow> (string \<times> 'v) list" where
  "own_properties kvs =
     sort_key (\<lambda>kv. index_value (fst kv)) (filter (\<lambda>kv. is_array_index (fst kv)) kvs)
     @ filter (\<lambda>kv. \<not> is_array_index (fst kv)) kvs"

definition updatePnlChart :: "'n numbers \<Rightarrow> json \<Rightarrow> 'n dashboard \<Rightarrow> 'n dashboard outcome" where
  "updatePnlChart N trades d =
     (if \<not> truthy trades \<or> pnl d = None then Returned d
      else case trades of
        JArr ts \<Rightarrow>
          (case add_trades N ts [] of
             Some dailyPnl \<Rightarrow>
               Returned (d\<lparr>pnl := Some (map fst (own_properties dailyPnl),
                                          map snd (own_properties dailyPnl))\<rparr>)
           | None \<Rightarrow> Threw d)
      | _ \<Rightarrow> Threw d)"

text \<open>
  \<^verbatim>\<open>updateCharts\<close> awaits the performance data, then the trades, then redraws the two
  charts; whatever throws on the way is logged and ends it.
\<close>

definition updateCharts :: "'n numbers \<Rightarrow> response \<Rightarrow> response \<Rightarrow> 'n dashboard \<Rightarrow> 'n dashboard" where
  "updateCharts N r_performance r_trades d =
     (let d1 = record_event (Fetch GET [Lit ''/api/monitor/performance''] None) d in
      case r_performance of
        Json performanceData \<Rightarrow>
          (let d2 = record_event (Fetch GET [Lit ''/api/monitor/trades''] None) d1 in
           case r_trades of
             Json tradesData \<Rightarrow>
               (case get_prop performanceData ''equity_history'' of
                  None \<Rightarrow> record_event (ConsoleError UpdateChartsFailed) d2
                | Some h \<Rightarrow>
                    (case updateEquityChart h d2 of
                       Threw d3 \<Rightarrow> record_event (ConsoleError UpdateChartsFailed) d3
                     | Returned d3 \<Rightarrow>
                         (case updatePnlChart N tradesData d3 of
                            Threw d4 \<Rightarrow> record_event (ConsoleError UpdateChartsFailed) d4
                          | Returned d4 \<Rightarrow> d4)))
           | _ \<Rightarrow> record_event (ConsoleError UpdateChartsFailed) d2)
      | _ \<Rightarrow> record_event (ConsoleError UpdateChartsFailed) d1)"

subsection \<open>Actions\<close>

definition toggleStrategy_dash :: "string \<Rightarrow> response \<Rightarrow> response \<Rightarrow> 'n dashboard \<Rightarrow> 'n dashboard" where
  "toggleStrategy_dash strategyName post get d =
     (let d1 = record_event (Fetch POST [Lit ''/api/strategy/'', Lit strategyName, Lit ''/toggle''] None) d;
          failed = showNotification TryAgain Error (record_event (ConsoleError ToggleStrategyFailed) d1)
      in case post of
           Json result \<Rightarrow>
             (case get_prop result ''is_active'' of
                Some a \<Rightarrow>
                  loadStrategies_dash get
                    (if truthy a then showNotification (StrategyEnabled strategyName) Success d1
                     else showNotification (StrategyDisabled strategyName) Warning d1)
              | None \<Rightarrow> failed)
         | _ \<Rightarrow> failed)"


subsection \<open>Switching panels\<close>

text \<open>
  \<^verbatim>\<open>switchPanel\<close> takes the class \<^verbatim>\<open>active\<close> from every panel and every navigation
  link, then gives it to the element with the id and to the first link whose
  \<^verbatim>\<open>href\<close> is \<^verbatim>\<open>#\<close> followed by the id. Either lookup may find nothing (the empty id
  never finds an element); the method call on \<^verbatim>\<open>null\<close> then throws, with the classes
  already removed. It sends no request.
\<close>

fun deactivate :: "element \<Rightarrow> element" where
  "deactivate (Element i p a) = Element i p (if p then False else a)"

fun activate_first :: "string \<Rightarrow> element list \<Rightarrow> element list option" where
  "activate_first i [] = None"
| "activate_first i (Element j p a # es) =
     (if j = i then Some (Element j p True # es)
      else map_option ((#) (Element j p a)) (activate_first i es))"

fun activate_link :: "string \<Rightarrow> link list \<Rightarrow> link list option" where
  "activate_link h [] = None"
| "activate_link h (Link g a # ls) =
     (if g = h then Some (Link g True # ls)
      else map_option ((#) (Link g a)) (activate_link h ls))"

definition switchPanel :: "string \<Rightarrow> 'n dashboard \<Rightarrow> 'n dashboard outcome" where
  "switchPanel panelId d =
     (let d1 = d\<lparr>elements := map deactivate (elements d),
                 links := map (\<lambda>l. Link (href l) False) (links d)\<rparr> in
      case (if panelId = [] then None else activate_first panelId (elements d1)) of
        None \<Rightarrow> Threw d1
      | Some es \<Rightarrow>
          (let d2 = d1\<lparr>elements := es\<rparr> in
           case activate_link (CHR ''#'' # panelId) (links d2) of
             None \<Rightarrow> Threw d2
           | Some ls \<Rightarrow> Returned (d2\<lparr>links := ls\<rparr>)))"

definition active_panels :: "'n dashboard \<Rightarrow> string list" where
  "active_panels d = map el_id (filter (\<lambda>e. is_panel e \<and> is_active e) (elements d))"

definition active_links :: "'n dashboard \<Rightarrow> string list" where
  "active_links d = map href (filter link_active (links d))"

subsection \<open>The update loop\<close>

text \<open>
  \<^verbatim>\<open>startDataUpdates\<close> starts a timer of 5000 ms. Each firing calls
  \<^verbatim>\<open>updateOverview\<close>, \<^verbatim>\<open>updatePositions\<close> and \<^verbatim>\<open>updateCharts\<close>, whichever panel is
  shown. In the browser the three run interleaved; they write to different parts of the
  page, and here they run one after the other.
\<close>

definition startDataUpdates :: "'n dashboard \<Rightarrow> 'n dashboard" where
  "startDataUpdates d = d\<lparr>updateInterval := Some 5000\<rparr>"

definition data_update ::
  "'n numbers \<Rightarrow> response \<times> response \<times> response \<times> response \<Rightarrow> 'n dashboard \<Rightarrow> 'n dashboard" where
  "data_update N rs d =
     (case rs of (r_overview, r_positions, r_performance, r_trades) \<Rightarrow>
        updateCharts N r_performance r_trades (updatePositions r_positions (updateOverview r_overview d)))"

text \<open>
  The page as the template delivers it, before any script has run. It has no chart yet;
  the charts that the examples draw on it hold numbers of the type \<open>number\<close>.
\<close>

definition page :: "number dashboard" where
  "page = \<lparr>
     elements = [
       Element ''overview'' True True,
       Element ''total-equity'' False False,
       Element ''daily-pnl'' False False,
       Element ''max-drawdown'' False False,
       Element ''active-positions'' False False,
       Element ''equity-chart'' False False,
       Element ''pnl-chart'' False False,
       Element ''strategies'' True False,
       Element ''strategies-container'' False False,
       Element ''positions'' True False,
       Element ''positions-body'' False False,
       Element ''config'' True False,
       Element ''save-config'' False False,
       Element ''reset-config'' False False,
       Element ''config-form'' False False],
     links = [Link ''#overview'' True, Link ''#strategies'' False,
              Link ''#positions'' False, Link ''#config'' False],
     overview = None,
     strategy_cards = None,
     position_rows = None,
     equity = None,
     pnl = None,
     updateInterval = None,
     d_events = []
   \<rparr>"

definition visible :: "'n dashboard \<Rightarrow> 'n dashboard" where
  "visible d = d\<lparr>d_events := []\<rparr>"

definition since_dash :: "'n dashboard \<Rightarrow> 'n dashboard \<Rightarrow> event list" where
  "since_dash d d' = drop (length (d_events d)) (d_events d')"

section \<open>Vocabulary of the properties\<close>

text \<open>
  The five pages of the Vue client (the cases of \<^verbatim>\<open>loadPageData\<close>), the address each
  one loads from, and the pages the template displays: the block of the settings page
  carries \<^verbatim>\<open>v-if="currentPage === 'settings'"\<close> (bot_6/templates/index.html), and the
  other pages are taken to be shown in the same way.
\<close>

definition pages :: "string list" where
  "pages = [''dashboard'', ''strategies'', ''positions'', ''risk'', ''settings'']"

definition endpoint :: "string \<Rightarrow> url" where
  "endpoint p =
     (if p = ''dashboard'' then [Lit ''/api/dashboard'']
      else if p = ''strategies'' then [Lit ''/api/strategies'']
      else if p = ''positions'' then [Lit ''/api/positions'']
      else if p = ''risk'' then [Lit ''/api/risk/metrics'']
      else if p = ''settings'' then [Lit ''/api/settings'']
      else [])"

definition displayed :: "vue \<Rightarrow> string list" where
  "displayed s = filter (\<lambda>p. currentPage s = p) pages"

text \<open>A load fails when the fetch rejects or the body is not JSON.\<close>

definition failed :: "response \<Rightarrow> bool" where
  "failed r = (r = NetworkError \<or> r = BadJson)"

text \<open>A response whose body parsed to a value other than \<^verbatim>\<open>null\<close>: its properties can be read.\<close>

definition usable :: "response \<Rightarrow> bool" where
  "usable r = (case r of Json d \<Rightarrow> \<not> nullish d | _ \<Rightarrow> False)"

text \<open>The answer to an action reports success: \<^verbatim>\<open>result.status === 'success'\<close>.\<close>

definition succeeded :: "response \<Rightarrow> bool" where
  "succeeded r =
     (case r of Json result \<Rightarrow> get_prop result ''status'' = Some (JStr ''success'') | _ \<Rightarrow> False)"

text \<open>The value of a property of a fetched object that is not \<^verbatim>\<open>null\<close>.\<close>

definition field :: "json \<Rightarrow> string \<Rightarrow> json" where
  "field d k = (case get_prop d k of Some v \<Rightarrow> v | None \<Rightarrow> JUndefined)"

text \<open>The risk classes in ascending order.\<close>

definition risk_order :: "string \<Rightarrow> nat" where
  "risk_order c = (if c = ''low-risk'' then 0 else if c = ''medium-risk'' then 1 else 2)"

text \<open>
  Modelled from the spec: the timer that \<^verbatim>\<open>setInterval\<close> starts is the browser's, not
  the repository's. The spec has it run its callback "repeatedly at a fixed interval":
  a timer of period \<open>p\<close> fires at \<open>p\<close>, \<open>2p\<close>, \<open>3p\<close>, ... milliseconds, so it has fired
  \<open>t div p\<close> times when \<open>t\<close> milliseconds have passed.
\<close>

definition firings :: "nat \<Rightarrow> nat \<Rightarrow> nat" where
  "firings p t = t div p"







text \<open>What a loader of the dashboard script can render: the HTML is built without a throw.\<close>

definition strategies_render :: "response \<Rightarrow> bool" where
  "strategies_render r = (case r of Json (JArr xs) \<Rightarrow> list_all strategy_renders xs | _ \<Rightarrow> False)"

definition positions_render :: "response \<Rightarrow> bool" where
  "positions_render r = (case r of Json (JArr xs) \<Rightarrow> list_all (\<lambda>pos. \<not> nullish pos) xs | _ \<Rightarrow> False)"

definition overview_renders :: "response \<Rightarrow> bool" where
  "overview_renders r =
     (case r of Json v \<Rightarrow> \<not> nullish v \<and> \<not> nullish (field v ''total_equity'') | _ \<Rightarrow> False)"


text \<open>
  Numbers for the examples: reals and \<open>NaN\<close>, added exactly. Every number of the
  examples is a whole number or a half, below a hundred in size; the sum of two such
  doubles is exact, and so is the sum of a running total of them. \<^verbatim>\<open>parseFloat\<close> reads
  such a number back as itself and makes \<open>NaN\<close> of the word \<^verbatim>\<open>n/a\<close>, the only other
  profit of the examples.
\<close>

definition number_of :: "json \<Rightarrow> number" where
  "number_of v = (case v of JNum x \<Rightarrow> Num x | _ \<Rightarrow> NaN)"

fun example_plus :: "number \<Rightarrow> number \<Rightarrow> number" where
  "example_plus (Num x) (Num y) = Num (x + y)"
| "example_plus _ _ = NaN"

definition example_numbers :: "number numbers" where
  "example_numbers =
     \<lparr>parseFloat = number_of, js_plus = example_plus, js_zero = Num 0,
      js_falsy = (\<lambda>a. a = Num 0 \<or> a = NaN)\<rparr>"

text \<open>Three trades on two days.\<close>

definition example_trades :: "json list" where
  "example_trades = [
     JObj [(''time'', JStr ''2024-01-05T10:00:00''), (''profit'', JNum 1.5)],
     JObj [(''time'', JStr ''2024-01-06T09:30:00''), (''profit'', JNum (-2))],
     JObj [(''time'', JStr ''2024-01-05T16:45:00''), (''profit'', JNum 2)]]"


section \<open>Counting events\<close>

lemma fetches_append [simp]: "fetches m u (xs @ ys) = fetches m u xs + fetches m u ys"
  by (simp add: fetches_def)

lemma error_notices_append [simp]: "error_notices (xs @ ys) = error_notices xs + error_notices ys"
  by (simp add: error_notices_def)

lemma fetches_simps [simp]:
  "fetches m u [] = 0"
  "fetches m u (Fetch m' u' b # evs) = (if m' = m \<and> u' = u then 1 else 0) + fetches m u evs"
  "fetches m u (ConsoleError x # evs) = fetches m u evs"
  "fetches m u (ShowError x # evs) = fetches m u evs"
  "fetches m u (ShowSuccess x # evs) = fetches m u evs"
  "fetches m u (Notify x l # evs) = fetches m u evs"
  by (simp_all add: fetches_def)

lemma error_notices_simps [simp]:
  "error_notices [] = 0"
  "error_notices (e # evs) = (if is_error_notice e then 1 else 0) + error_notices evs"
  by (simp_all add: error_notices_def)

section \<open>Facts about the Vue client\<close>

text \<open>
  For every method: the events it adds to the record, and the state it leaves, as
  equations that the proofs of the claims rewrite with.
\<close>

lemma get_prop_if: "get_prop d k = (if nullish d then None else Some (field d k))"
  by (cases d) (simp_all add: field_def)


lemma usable_simps [simp]:
  "\<not> usable NetworkError" "\<not> usable BadJson" "usable (Json d) = (\<not> nullish d)"
  by (simp_all add: usable_def)

lemma failed_simps [simp]:
  "failed NetworkError" "failed BadJson" "\<not> failed (Json d)"
  by (simp_all add: failed_def)

lemma shown_emit [simp]: "shown (emit e s) = shown s"
  by (simp add: shown_def emit_def)

lemma shown_caught [simp]: "shown (caught m s) = shown s"
  by (simp add: caught_def showError_def)

lemma shown_showSuccess [simp]: "shown (showSuccess m s) = shown s"
  by (simp add: showSuccess_def)

lemma events_emit [simp]: "events (emit e s) = events s @ [e]"
  by (simp add: emit_def)

lemma events_caught [simp]: "events (caught m s) = events s @ [ConsoleError m, ShowError m]"
  by (simp add: caught_def showError_def)

lemma events_showSuccess [simp]: "events (showSuccess m s) = events s @ [ShowSuccess m]"
  by (simp add: showSuccess_def)

lemma since_eq: "events s' = events s @ evs \<Longrightarrow> since s s' = evs"
  by (simp add: since_def)

lemma events_loadDashboardData:
  "events (loadDashboardData r s) =
     events s @ [Fetch GET [Lit ''/api/dashboard''] None, ConsoleError LoadDashboardFailed, ShowError LoadDashboardFailed]"
  by (cases r) (simp_all add: loadDashboardData_def Let_def get_prop_if)

lemma events_loadStrategies:
  "events (loadStrategies r s) =
     events s @ Fetch GET [Lit ''/api/strategies''] None #
       (if usable r then [] else [ConsoleError LoadStrategiesFailed, ShowError LoadStrategiesFailed])"
  by (cases r) (simp_all add: loadStrategies_def Let_def get_prop_if)

lemma events_loadPositions:
  "events (loadPositions r s) =
     events s @ Fetch GET [Lit ''/api/positions''] None #
       (if usable r then [] else [ConsoleError LoadPositionsFailed, ShowError LoadPositionsFailed])"
  by (cases r) (simp_all add: loadPositions_def Let_def get_prop_if)

lemma events_loadRiskData:
  "events (loadRiskData r s) =
     events s @ Fetch GET [Lit ''/api/risk/metrics''] None #
       (if usable r then [] else [ConsoleError LoadRiskFailed, ShowError LoadRiskFailed])"
  by (cases r) (simp_all add: loadRiskData_def Let_def get_prop_if)

lemma events_loadSettings:
  "events (loadSettings r s) =
     events s @ Fetch GET [Lit ''/api/settings''] None #
       (if usable r then [] else [ConsoleError LoadSettingsFailed, ShowError LoadSettingsFailed])"
  by (cases r) (simp_all add: loadSettings_def Let_def get_prop_if)

lemmas events_load = events_loadDashboardData events_loadStrategies events_loadPositions
  events_loadRiskData events_loadSettings

lemma shown_load_failed:
  "failed r \<Longrightarrow> shown (loadDashboardData r s) = shown s"
  "failed r \<Longrightarrow> shown (loadStrategies r s) = shown s"
  "failed r \<Longrightarrow> shown (loadPositions r s) = shown s"
  "failed r \<Longrightarrow> shown (loadRiskData r s) = shown s"
  "failed r \<Longrightarrow> shown (loadSettings r s) = shown s"
  by (cases r; simp add: loadDashboardData_def loadStrategies_def loadPositions_def
        loadRiskData_def loadSettings_def Let_def)+







lemma events_toggleStrategy:
  "events (toggleStrategy strategy post get s) =
     events s @
       (if nullish strategy then [ConsoleError StrategyActionFailed, ShowError StrategyActionFailed]
        else Fetch POST [Lit ''/api/strategies/'', Sub (field strategy ''id''), Lit ''/'',
                         Lit (if field strategy ''status'' = JStr ''active'' then ''pause'' else ''start'')] None #
          (if post = NetworkError then [ConsoleError StrategyActionFailed, ShowError StrategyActionFailed]
           else Fetch GET [Lit ''/api/strategies''] None #
             (if usable get then [] else [ConsoleError LoadStrategiesFailed, ShowError LoadStrategiesFailed])))"
  by (cases post) (simp_all add: toggleStrategy_def Let_def get_prop_if events_loadStrategies)





lemma events_handleAlert:
  "events (handleAlert alert post get s) =
     events s @
       (if nullish alert then [ConsoleError HandleAlertFailed, ShowError HandleAlertFailed]
        else Fetch POST [Lit ''/api/risk/alerts/'', Sub (field alert ''id''), Lit ''/handle''] None #
          (if post = NetworkError then [ConsoleError HandleAlertFailed, ShowError HandleAlertFailed]
           else Fetch GET [Lit ''/api/risk/metrics''] None #
             (if usable get then [] else [ConsoleError LoadRiskFailed, ShowError LoadRiskFailed])))"
  by (cases post) (simp_all add: handleAlert_def Let_def get_prop_if events_loadRiskData)







lemma currentPage_loadPageData: "currentPage (loadPageData p r s) = currentPage s"
  by (cases r)
     (simp_all add: loadPageData_def loadDashboardData_def loadStrategies_def loadPositions_def
        loadRiskData_def loadSettings_def caught_def showError_def emit_def Let_def get_prop_if)

lemma displayed_page: "\<forall>p \<in> set pages. filter (\<lambda>q. p = q) pages = [p]"
  unfolding pages_def by simp

lemma loadPageData_fetches_once:
  "\<forall>p \<in> set pages. fetches GET (endpoint p) (since s (loadPageData p r s)) = 1"
  unfolding pages_def
  by (simp add: loadPageData_def endpoint_def since_eq [OF events_loadDashboardData]
        since_eq [OF events_loadStrategies] since_eq [OF events_loadPositions]
        since_eq [OF events_loadRiskData] since_eq [OF events_loadSettings])

lemma since_currentPage: "since (s\<lparr>currentPage := p\<rparr>) s' = since s s'"
  by (simp add: since_def)

lemma loadPageData_fetches:
  "\<forall>p \<in> set pages. fetches GET (endpoint p) (events (loadPageData p r s)) =
      fetches GET (endpoint p) (events s) + 1"
  unfolding pages_def
  by (simp add: loadPageData_def endpoint_def events_load)

lemma fetches_poll:
  "currentPage s \<in> set pages \<Longrightarrow>
     fetches GET (endpoint (currentPage s)) (events (fold poll rs s)) =
       fetches GET (endpoint (currentPage s)) (events s) + length rs"
proof (induction rs arbitrary: s)
  case Nil
  then show ?case by simp
next
  case (Cons r rs)
  have "currentPage (poll r s) = currentPage s"
    by (simp add: poll_def currentPage_loadPageData)
  with Cons.IH [of "poll r s"] Cons.prems loadPageData_fetches [rule_format, of "currentPage s" r s]
  show ?case by (simp add: poll_def)
qed

lemma init_simps: "currentPage init = ''dashboard''" "events init = []"
  by (simp_all add: init_def)

text \<open>
  A dashboard load reports a failure whatever the response is: after a successful fetch
  the call of the method that does not exist throws.
\<close>

lemma loadDashboardData_always_reports:
  "error_notices (since s (loadDashboardData r s)) = 1"
  by (simp add: since_eq [OF events_loadDashboardData])

section \<open>Facts about the dashboard script\<close>

lemma visible_record_event [simp]: "visible (record_event e d) = visible d"
  by (simp add: visible_def record_event_def)

lemma visible_showNotification [simp]: "visible (showNotification m l d) = visible d"
  by (simp add: showNotification_def)

lemma d_events_record_event [simp]: "d_events (record_event e d) = d_events d @ [e]"
  by (simp add: record_event_def)

lemma d_events_showNotification [simp]: "d_events (showNotification m l d) = d_events d @ [Notify m l]"
  by (simp add: showNotification_def)

lemma since_dash_eq: "d_events d' = d_events d @ evs \<Longrightarrow> since_dash d d' = evs"
  by (simp add: since_dash_def)

lemma d_events_loadStrategies_dash:
  "d_events (loadStrategies_dash r d) =
     d_events d @ Fetch GET [Lit ''/api/strategy/list''] None #
       (if strategies_render r then [] else [ConsoleError StrategyListFailed])"
  by (simp add: loadStrategies_dash_def strategies_render_def Let_def split: response.split json.split)

lemma d_events_updatePositions:
  "d_events (updatePositions r d) =
     d_events d @ Fetch GET [Lit ''/api/monitor/positions''] None #
       (if positions_render r then [] else [ConsoleError UpdatePositionsFailed])"
  by (simp add: updatePositions_def positions_render_def Let_def split: response.split json.split)

lemma d_events_updateOverview:
  "d_events (updateOverview r d) =
     d_events d @ Fetch GET [Lit ''/api/monitor/overview''] None #
       (if overview_renders r then [] else [ConsoleError UpdateOverviewFailed])"
  by (simp add: updateOverview_def overview_renders_def Let_def get_prop_if split: response.split)

lemma visible_load_failed:
  "failed r \<Longrightarrow> visible (loadStrategies_dash r d) = visible d"
  "failed r \<Longrightarrow> visible (updateOverview r d) = visible d"
  "failed r \<Longrightarrow> visible (updatePositions r d) = visible d"
  by (cases r; simp add: loadStrategies_dash_def updateOverview_def updatePositions_def Let_def)+

lemma d_events_updateEquityChart [simp]: "d_events (state_of (updateEquityChart h d)) = d_events d"
  by (simp add: updateEquityChart_def split: json.split option.split)

lemma d_events_updatePnlChart [simp]: "d_events (state_of (updatePnlChart N t d)) = d_events d"
  by (simp add: updatePnlChart_def split: json.split option.split)

lemma updateEquityChart_events:
  "updateEquityChart h d = Threw d' \<or> updateEquityChart h d = Returned d' \<Longrightarrow> d_events d' = d_events d"
  by (metis d_events_updateEquityChart state_of.simps)

lemma updatePnlChart_events:
  "updatePnlChart N t d = Threw d' \<or> updatePnlChart N t d = Returned d' \<Longrightarrow> d_events d' = d_events d"
  by (metis d_events_updatePnlChart state_of.simps)

lemma fetches_updateCharts:
  "fetches m u (d_events (updateCharts N r1 r2 d)) =
     fetches m u (d_events d) +
     fetches m u (Fetch GET [Lit ''/api/monitor/performance''] None #
                    (case r1 of Json p \<Rightarrow> [Fetch GET [Lit ''/api/monitor/trades''] None] | _ \<Rightarrow> []))"
  by (auto simp: updateCharts_def Let_def split: response.split option.split outcome.split
           dest!: updateEquityChart_events [OF disjI1] updateEquityChart_events [OF disjI2]
                  updatePnlChart_events [OF disjI1] updatePnlChart_events [OF disjI2])

lemma error_notices_updateCharts:
  "error_notices (d_events (updateCharts N r1 r2 d)) = error_notices (d_events d)"
  by (auto simp: updateCharts_def Let_def split: response.split option.split outcome.split
           dest!: updateEquityChart_events [OF disjI1] updateEquityChart_events [OF disjI2]
                  updatePnlChart_events [OF disjI1] updatePnlChart_events [OF disjI2])

lemma updateCharts_failed:
  "failed r \<Longrightarrow> updateCharts N r r' d =
     record_event (ConsoleError UpdateChartsFailed) (record_event (Fetch GET [Lit ''/api/monitor/performance''] None) d)"
  "failed r \<Longrightarrow> updateCharts N (Json v) r d =
     record_event (ConsoleError UpdateChartsFailed)
       (record_event (Fetch GET [Lit ''/api/monitor/trades''] None)
          (record_event (Fetch GET [Lit ''/api/monitor/performance''] None) d))"
  by (cases r; simp add: updateCharts_def Let_def)+

lemma d_events_toggleStrategy_dash:
  "d_events (toggleStrategy_dash n post get d) =
     d_events d @ Fetch POST [Lit ''/api/strategy/'', Lit n, Lit ''/toggle''] None #
       (case post of
          Json result \<Rightarrow>
            if nullish result then [ConsoleError ToggleStrategyFailed, Notify TryAgain Error]
            else (if truthy (field result ''is_active'') then Notify (StrategyEnabled n) Success
                  else Notify (StrategyDisabled n) Warning) #
                 Fetch GET [Lit ''/api/strategy/list''] None #
                 (if strategies_render get then [] else [ConsoleError StrategyListFailed])
        | _ \<Rightarrow> [ConsoleError ToggleStrategyFailed, Notify TryAgain Error])"
  by (simp add: toggleStrategy_dash_def Let_def get_prop_if d_events_loadStrategies_dash split: response.split)


lemma succeeded_simps [simp]:
  "\<not> succeeded NetworkError" "\<not> succeeded BadJson"
  "succeeded (Json result) \<longleftrightarrow> \<not> nullish result \<and> field result ''status'' = JStr ''success''"
  by (simp_all add: succeeded_def get_prop_if)


lemma deactivate_inactive: "is_panel (deactivate a) \<Longrightarrow> \<not> is_active (deactivate a)"
  by (cases a) simp

lemma no_active_panel_deactivated:
  "filter (\<lambda>e. is_panel e \<and> is_active e) (map deactivate es) = []"
  by (induction es) (simp_all add: deactivate_inactive)

lemma activate_first_deactivated:
  "find (\<lambda>e. el_id e = i) es = Some e \<Longrightarrow> is_panel e \<Longrightarrow>
     \<exists>es'. activate_first i (map deactivate es) = Some es'
       \<and> filter (\<lambda>e. is_panel e \<and> is_active e) es' = [Element i True True]"
proof (induction es)
  case Nil
  then show ?case by simp
next
  case (Cons x es)
  obtain j p a where x: "x = Element j p a" by (cases x)
  show ?case
  proof (cases "j = i")
    case True
    with Cons.prems x have "p" by auto
    with True x show ?thesis by (simp add: no_active_panel_deactivated)
  next
    case False
    with Cons x obtain es' where "activate_first i (map deactivate es) = Some es'"
      "filter (\<lambda>e. is_panel e \<and> is_active e) es' = [Element i True True]"
      by auto
    with False x show ?thesis by simp
  qed
qed

lemma activate_first_unknown:
  "i \<notin> el_id ` set es \<Longrightarrow> activate_first i (map deactivate es) = None"
proof (induction es)
  case Nil
  then show ?case by simp
next
  case (Cons x es)
  then show ?case by (cases x) auto
qed

lemma activate_link_cleared:
  "h \<in> href ` set ls \<Longrightarrow>
     \<exists>ls'. activate_link h (map (\<lambda>l. Link (href l) False) ls) = Some ls'
       \<and> filter link_active ls' = [Link h True]"
proof (induction ls)
  case Nil
  then show ?case by simp
next
  case (Cons l ls)
  have none: "filter link_active (map (\<lambda>l. Link (href l) False) ls) = []" for ls
    by (induction ls) simp_all
  show ?case
  proof (cases "href l = h")
    case True
    then show ?thesis by (simp add: none)
  next
    case False
    with Cons obtain ls' where "activate_link h (map (\<lambda>l. Link (href l) False) ls) = Some ls'"
      "filter link_active ls' = [Link h True]"
      by auto
    with False show ?thesis by simp
  qed
qed

lemma switchPanel_known:
  assumes "find (\<lambda>e. el_id e = panelId) (elements d) = Some e" and "is_panel e"
    and "(CHR ''#'' # panelId) \<in> href ` set (links d)" and "panelId \<noteq> []"
  shows "switchPanel panelId d = Returned (state_of (switchPanel panelId d))
     \<and> active_panels (state_of (switchPanel panelId d)) = [panelId]
     \<and> active_links (state_of (switchPanel panelId d)) = [CHR ''#'' # panelId]
     \<and> d_events (state_of (switchPanel panelId d)) = d_events d"
proof -
  from activate_first_deactivated [OF assms(1,2)] obtain es' where
    es: "activate_first panelId (map deactivate (elements d)) = Some es'"
      "filter (\<lambda>e. is_panel e \<and> is_active e) es' = [Element panelId True True]"
    by blast
  from activate_link_cleared [OF assms(3)] obtain ls' where
    ls: "activate_link (CHR ''#'' # panelId) (map (\<lambda>l. Link (href l) False) (links d)) = Some ls'"
      "filter link_active ls' = [Link (CHR ''#'' # panelId) True]"
    by blast
  from es ls assms(4) show ?thesis
    by (simp add: switchPanel_def Let_def active_panels_def active_links_def)
qed

lemma fetches_data_update:
  "fetches GET [Lit ''/api/monitor/overview''] (d_events (data_update N rs d)) =
     fetches GET [Lit ''/api/monitor/overview''] (d_events d) + 1"
  "fetches GET [Lit ''/api/monitor/positions''] (d_events (data_update N rs d)) =
     fetches GET [Lit ''/api/monitor/positions''] (d_events d) + 1"
  "fetches GET [Lit ''/api/monitor/performance''] (d_events (data_update N rs d)) =
     fetches GET [Lit ''/api/monitor/performance''] (d_events d) + 1"
  "fetches GET [Lit ''/api/strategy/list''] (d_events (data_update N rs d)) =
     fetches GET [Lit ''/api/strategy/list''] (d_events d)"
  by (cases rs; simp add: data_update_def fetches_updateCharts d_events_updatePositions
        d_events_updateOverview split: response.split)+

lemma fetches_data_updates:
  "fetches GET [Lit ''/api/monitor/overview''] (d_events (fold (data_update N) rss d)) =
     fetches GET [Lit ''/api/monitor/overview''] (d_events d) + length rss"
  "fetches GET [Lit ''/api/monitor/positions''] (d_events (fold (data_update N) rss d)) =
     fetches GET [Lit ''/api/monitor/positions''] (d_events d) + length rss"
  "fetches GET [Lit ''/api/monitor/performance''] (d_events (fold (data_update N) rss d)) =
     fetches GET [Lit ''/api/monitor/performance''] (d_events d) + length rss"
  "fetches GET [Lit ''/api/strategy/list''] (d_events (fold (data_update N) rss d)) =
     fetches GET [Lit ''/api/strategy/list''] (d_events d)"
  by (induction rss arbitrary: d; simp add: fetches_data_update)+








lemma page_simps: "d_events page = []" "pnl (initializeCharts page) \<noteq> None"
  by (simp_all add: page_def initializeCharts_def)

section \<open>A load that fails\<close>

text \<open>
  Claim C1, as amended. When a load fails (the fetch rejects, or the body is not JSON),
  what the view holds is left as it was. In the Vue client this holds for each of the
  five pages, and \<^verbatim>\<open>showError\<close> is called exactly once. In the dashboard script it
  holds for \<^verbatim>\<open>loadStrategies\<close>, \<^verbatim>\<open>updateOverview\<close>, \<^verbatim>\<open>updatePositions\<close> and
  \<^verbatim>\<open>updateCharts\<close> (whichever of its two requests fails), and no notification is
  raised: the \<^verbatim>\<open>catch\<close> block of a loader only writes to the console.
\<close>

theorem failed_load_keeps_page:
  "failed r \<Longrightarrow>
     (p \<in> set pages \<longrightarrow>
        shown (loadPageData p r s) = shown s \<and> error_notices (since s (loadPageData p r s)) = 1)
     \<and> visible (loadStrategies_dash r d) = visible d
     \<and> error_notices (since_dash d (loadStrategies_dash r d)) = 0
     \<and> visible (updateOverview r d) = visible d
     \<and> error_notices (since_dash d (updateOverview r d)) = 0
     \<and> visible (updatePositions r d) = visible d
     \<and> error_notices (since_dash d (updatePositions r d)) = 0
     \<and> visible (updateCharts N r r' d) = visible d
     \<and> error_notices (since_dash d (updateCharts N r r' d)) = 0
     \<and> visible (updateCharts N (Json v) r d) = visible d
     \<and> error_notices (since_dash d (updateCharts N (Json v) r d)) = 0"
proof -
  assume f: "failed r"
  from f have u: "\<not> usable r" by (cases r) simp_all
  have "\<forall>p \<in> set pages. shown (loadPageData p r s) = shown s
          \<and> error_notices (since s (loadPageData p r s)) = 1"
    unfolding pages_def
    by (simp add: loadPageData_def shown_load_failed [OF f] u since_eq [OF events_loadDashboardData]
          since_eq [OF events_loadStrategies] since_eq [OF events_loadPositions]
          since_eq [OF events_loadRiskData] since_eq [OF events_loadSettings])
  then have vue: "p \<in> set pages \<longrightarrow>
      shown (loadPageData p r s) = shown s \<and> error_notices (since s (loadPageData p r s)) = 1"
    by (rule_tac impI) (erule bspec)
  from f have nr: "\<not> strategies_render r" "\<not> positions_render r" "\<not> overview_renders r"
    by (cases r; simp add: strategies_render_def positions_render_def overview_renders_def)+
  have dash: "visible (loadStrategies_dash r d) = visible d"
    "error_notices (since_dash d (loadStrategies_dash r d)) = 0"
    "visible (updateOverview r d) = visible d"
    "error_notices (since_dash d (updateOverview r d)) = 0"
    "visible (updatePositions r d) = visible d"
    "error_notices (since_dash d (updatePositions r d)) = 0"
    by (simp_all add: visible_load_failed [OF f] nr since_dash_eq [OF d_events_loadStrategies_dash]
          since_dash_eq [OF d_events_updateOverview] since_dash_eq [OF d_events_updatePositions])
  have charts: "visible (updateCharts N r r' d) = visible d"
    "error_notices (since_dash d (updateCharts N r r' d)) = 0"
    "visible (updateCharts N (Json v) r d) = visible d"
    "error_notices (since_dash d (updateCharts N (Json v) r d)) = 0"
    by (simp_all add: updateCharts_failed [OF f] since_dash_def)
  from vue dash charts show ?thesis by (intro conjI)
qed

theorem failed_load_keeps_page_witness:
  "shown (loadPageData ''positions'' BadJson init) = shown init
   \<and> error_notices (since init (loadPageData ''positions'' BadJson init)) = 1
   \<and> visible (loadStrategies_dash BadJson page) = visible page
   \<and> error_notices (since_dash page (loadStrategies_dash BadJson page)) = 0"
  using failed_load_keeps_page [where r = BadJson and p = "''positions''" and s = init and d = page]
  by (simp add: pages_def)

text \<open>
  As stated, with exactly one error notification for every view, the claim fails in the
  dashboard script: a strategy list that cannot be fetched raises none.
\<close>

theorem failed_load_counterexample:
  "error_notices (since_dash page (loadStrategies_dash NetworkError page)) \<noteq> 1"
  by (simp add: since_dash_eq [OF d_events_loadStrategies_dash] strategies_render_def)

section \<open>What follows a POST\<close>




section \<open>The re-fetch after toggleStrategy\<close>

text \<open>
  Claim C3. A call of \<^verbatim>\<open>toggleStrategy\<close> whose POST succeeds fetches the strategy list
  again exactly once. In the Vue client the POST has succeeded when \<^verbatim>\<open>fetch\<close>
  resolved: the body is never read. In the dashboard script the answer is read
  (\<^verbatim>\<open>result.is_active\<close>), so the POST has succeeded when its body parsed to a value
  other than \<^verbatim>\<open>null\<close>. The response to the GET does not matter.
\<close>

theorem toggleStrategy_refetches_once:
  "(\<not> nullish strategy \<and> post \<noteq> NetworkError \<longrightarrow>
      fetches GET [Lit ''/api/strategies''] (since s (toggleStrategy strategy post get s)) = 1)
   \<and> (usable post \<longrightarrow>
      fetches GET [Lit ''/api/strategy/list''] (since_dash d (toggleStrategy_dash strategyName post get d)) = 1)"
  by (cases post) (simp_all add: since_eq [OF events_toggleStrategy] since_dash_eq [OF d_events_toggleStrategy_dash])

theorem toggleStrategy_refetches_once_witness:
  "fetches GET [Lit ''/api/strategies'']
     (since init (toggleStrategy (JObj [(''id'', JStr ''grid-1''), (''status'', JStr ''active'')])
        BadJson (Json (JObj [(''strategies'', JArr [])])) init)) = 1
   \<and> fetches GET [Lit ''/api/strategy/list'']
     (since_dash page (toggleStrategy_dash ''grid'' (Json (JObj [(''is_active'', JBool True)]))
        (Json (JArr [])) page)) = 1"
  using toggleStrategy_refetches_once [where strategy = "JObj [(''id'', JStr ''grid-1''), (''status'', JStr ''active'')]"
          and post = BadJson and s = init and get = "Json (JObj [(''strategies'', JArr [])])"]
        toggleStrategy_refetches_once [where post = "Json (JObj [(''is_active'', JBool True)])"
          and d = page and strategyName = "''grid''" and get = "Json (JArr [])"]
  by simp

text \<open>When the POST fails, the list is not fetched.\<close>

lemma toggleStrategy_no_refetch:
  "(nullish strategy \<or> post = NetworkError \<longrightarrow>
      fetches GET [Lit ''/api/strategies''] (since s (toggleStrategy strategy post get s)) = 0)
   \<and> (\<not> usable post \<longrightarrow>
      fetches GET [Lit ''/api/strategy/list''] (since_dash d (toggleStrategy_dash strategyName post get d)) = 0)"
  by (cases post) (simp_all add: since_eq [OF events_toggleStrategy] since_dash_eq [OF d_events_toggleStrategy_dash])

section \<open>Risk classes\<close>

text \<open>
  Claim C4, as amended. For every number other than \<open>NaN\<close>, \<^verbatim>\<open>getRiskClass\<close> returns
  the low class exactly when the value is below 0.5, the medium class exactly when it is
  at least 0.5 and below 0.8, and the high class exactly when it is at least 0.8; the
  class never goes down when the value goes up. \<open>NaN\<close>, for which no comparison holds,
  falls through both tests and is classed high.

  The double written \<^verbatim>\<open>0.8\<close> lies just above the real 0.8 with no double between the
  two, so on doubles the test \<^verbatim>\<open>value < 0.8\<close> is the comparison with the real 0.8.
\<close>

theorem getRiskClass_buckets:
  "(getRiskClass (Num x) = ''low-risk'' \<longleftrightarrow> x < 0.5)
   \<and> (getRiskClass (Num x) = ''medium-risk'' \<longleftrightarrow> 0.5 \<le> x \<and> x < 0.8)
   \<and> (getRiskClass (Num x) = ''high-risk'' \<longleftrightarrow> 0.8 \<le> x)
   \<and> (x \<le> y \<longrightarrow> risk_order (getRiskClass (Num x)) \<le> risk_order (getRiskClass (Num y)))
   \<and> getRiskClass NaN = ''high-risk''"
  by (simp add: getRiskClass_def risk_order_def)

theorem getRiskClass_buckets_witness:
  "getRiskClass (Num 0.5) = ''medium-risk'' \<and> getRiskClass (Num 0.8) = ''high-risk''
   \<and> risk_order (getRiskClass (Num 0.5)) \<le> risk_order (getRiskClass (Num 0.8))"
  using getRiskClass_buckets [of "0.5" "0.8"] getRiskClass_buckets [of "0.8" "0.8"]
  by (simp add: risk_order_def)

text \<open>
  As stated, for every numeric input, the claim fails at \<open>NaN\<close>: it is classed high
  although \<^verbatim>\<open>NaN >= 0.8\<close> is false.
\<close>

theorem getRiskClass_NaN_counterexample:
  "getRiskClass NaN = ''high-risk'' \<and> \<not> js_ge NaN (Num 0.8)"
  by (simp add: getRiskClass_def)

section \<open>What the Vue client holds\<close>




section \<open>Switching the view\<close>

text \<open>
  Claim C7, as amended. Whatever was shown before: after \<^verbatim>\<open>changePage\<close> with one of the
  five pages, that page and no other is displayed, and its data are fetched once; after
  \<^verbatim>\<open>switchPanel\<close> with the id of a panel that has a navigation link, that panel and no
  other is active, and so is its link alone. \<^verbatim>\<open>switchPanel\<close> sends no request.
\<close>

theorem switch_shows_one_view:
  "(p \<in> set pages \<longrightarrow>
      displayed (changePage p r s) = [p]
      \<and> fetches GET (endpoint p) (since s (changePage p r s)) = 1)
   \<and> (panelId \<noteq> [] \<and> find (\<lambda>e. el_id e = panelId) (elements d) = Some e \<and> is_panel e
        \<and> (CHR ''#'' # panelId) \<in> href ` set (links d) \<longrightarrow>
      switchPanel panelId d = Returned (state_of (switchPanel panelId d))
      \<and> active_panels (state_of (switchPanel panelId d)) = [panelId]
      \<and> active_links (state_of (switchPanel panelId d)) = [CHR ''#'' # panelId]
      \<and> d_events (state_of (switchPanel panelId d)) = d_events d)"
proof -
  have "displayed (changePage p r s) = [p] \<and> fetches GET (endpoint p) (since s (changePage p r s)) = 1"
    if p: "p \<in> set pages"
  proof -
    from p have "filter (\<lambda>q. p = q) pages = [p]" by (rule displayed_page [rule_format])
    then have "displayed (changePage p r s) = [p]"
      by (simp add: displayed_def changePage_def currentPage_loadPageData)
    moreover from p have "fetches GET (endpoint p) (since s (changePage p r s)) = 1"
      using loadPageData_fetches_once [rule_format, of p "s\<lparr>currentPage := p\<rparr>" r]
      by (simp add: changePage_def since_currentPage)
    ultimately show ?thesis by simp
  qed
  then show ?thesis using switchPanel_known [of panelId d e] by blast
qed

theorem switch_shows_one_view_witness:
  "displayed (changePage ''risk'' NetworkError init) = [''risk'']
   \<and> fetches GET [Lit ''/api/risk/metrics''] (since init (changePage ''risk'' NetworkError init)) = 1
   \<and> active_panels (state_of (switchPanel ''positions'' page)) = [''positions'']
   \<and> active_links (state_of (switchPanel ''positions'' page)) = [''#positions'']"
  using switch_shows_one_view [where p = "''risk''" and r = NetworkError and s = init
          and panelId = "''positions''" and d = page and e = "Element ''positions'' True False"]
  by (simp add: pages_def endpoint_def page_def)

text \<open>
  As stated, with a load of the newly active view after every switch, the claim fails
  in the dashboard script: the strategies panel becomes the active one and nothing is
  fetched.
\<close>

theorem switchPanel_loads_nothing_counterexample:
  "active_panels (state_of (switchPanel ''strategies'' page)) = [''strategies'']
   \<and> filter is_fetch (d_events (state_of (switchPanel ''strategies'' page))) = []"
  by (simp add: switchPanel_def page_def active_panels_def Let_def)

text \<open>With an id that no element has, \<^verbatim>\<open>switchPanel\<close> throws and leaves no panel active.\<close>

lemma switchPanel_unknown:
  "panelId \<notin> el_id ` set (elements d) \<Longrightarrow>
     switchPanel panelId d = Threw (state_of (switchPanel panelId d))
     \<and> active_panels (state_of (switchPanel panelId d)) = []"
  by (simp add: switchPanel_def Let_def active_panels_def activate_first_unknown
        no_active_panel_deactivated)

section \<open>Polling\<close>

text \<open>
  Claim C8, as amended. Both clients poll at a fixed period between 5 and 30 seconds.
  The Vue client's timer has a period of 30000 ms, and each firing loads the page that
  is current: one GET of its address. The dashboard script's timer has a period of
  5000 ms, and each firing fetches the overview, the positions and the performance data
  once, whichever panel is active; it never fetches the strategy list. A timer of
  5000 ms fires 12 times in 60000 ms, which makes exactly 12 such cycles.
\<close>

theorem polling_cycles:
  "5000 \<le> poll_period \<and> poll_period \<le> 30000
   \<and> updateInterval (startDataUpdates d) = Some 5000
   \<and> (currentPage s \<in> set pages \<longrightarrow>
        fetches GET (endpoint (currentPage s)) (events (fold poll rs s)) =
          fetches GET (endpoint (currentPage s)) (events s) + length rs)
   \<and> fetches GET [Lit ''/api/monitor/overview''] (d_events (fold (data_update N) rss d)) =
        fetches GET [Lit ''/api/monitor/overview''] (d_events d) + length rss
   \<and> fetches GET [Lit ''/api/monitor/positions''] (d_events (fold (data_update N) rss d)) =
        fetches GET [Lit ''/api/monitor/positions''] (d_events d) + length rss
   \<and> fetches GET [Lit ''/api/monitor/performance''] (d_events (fold (data_update N) rss d)) =
        fetches GET [Lit ''/api/monitor/performance''] (d_events d) + length rss
   \<and> fetches GET [Lit ''/api/strategy/list''] (d_events (fold (data_update N) rss d)) =
        fetches GET [Lit ''/api/strategy/list''] (d_events d)
   \<and> (length rss = firings 5000 60000 \<longrightarrow>
        fetches GET [Lit ''/api/monitor/overview''] (d_events (fold (data_update N) rss d)) =
          fetches GET [Lit ''/api/monitor/overview''] (d_events d) + 12)"
  by (simp add: poll_period_def startDataUpdates_def fetches_poll fetches_data_updates firings_def)

theorem polling_cycles_witness:
  "fetches GET [Lit ''/api/dashboard''] (events (fold poll [NetworkError, BadJson] init)) = 2
   \<and> fetches GET [Lit ''/api/monitor/overview'']
        (d_events (fold (data_update example_numbers)
           (replicate 12 (NetworkError, NetworkError, NetworkError, NetworkError)) page)) = 12"
  using polling_cycles [where s = init and rs = "[NetworkError, BadJson]" and d = page and N = example_numbers
          and rss = "replicate 12 (NetworkError, NetworkError, NetworkError, NetworkError)"]
  by (simp add: pages_def endpoint_def firings_def init_simps page_simps)

text \<open>
  As stated, with a load of the currently active view at every firing, the claim fails
  in the dashboard script: with the strategies panel active, a firing whose four
  requests all succeed does not fetch the strategy list.
\<close>

theorem polling_active_view_counterexample:
  "active_panels (state_of (switchPanel ''strategies'' page)) = [''strategies'']
   \<and> fetches GET [Lit ''/api/strategy/list'']
        (d_events (data_update example_numbers
           (Json (JObj [(''total_equity'', JObj [])]), Json (JArr []),
            Json (JObj [(''equity_history'', JArr [])]), Json (JArr []))
           (state_of (switchPanel ''strategies'' page)))) = 0"
  by (simp add: fetches_data_update) (simp add: switchPanel_def page_def active_panels_def Let_def)

section \<open>The action sent by toggleStrategy\<close>

text \<open>
  Claim C9. In the Vue client, \<^verbatim>\<open>toggleStrategy(strategy)\<close> sends its POST to the
  \<^verbatim>\<open>pause\<close> address of the strategy exactly when \<^verbatim>\<open>strategy.status === 'active'\<close>, and
  to the \<^verbatim>\<open>start\<close> address for every other status. It is the only POST of the call,
  whatever the responses are; when the strategy is \<^verbatim>\<open>null\<close> the status cannot be read
  and no POST is sent at all.
\<close>

theorem toggleStrategy_action:
  "(\<not> nullish strategy \<longrightarrow>
      filter is_post (since s (toggleStrategy strategy post get s)) =
        [Fetch POST [Lit ''/api/strategies/'', Sub (field strategy ''id''), Lit ''/'',
                     Lit (if field strategy ''status'' = JStr ''active'' then ''pause'' else ''start'')] None])
   \<and> (nullish strategy \<longrightarrow> filter is_post (since s (toggleStrategy strategy post get s)) = [])"
  by (simp add: since_eq [OF events_toggleStrategy])

theorem toggleStrategy_action_witness:
  "filter is_post (since init (toggleStrategy
       (JObj [(''id'', JStr ''grid-1''), (''status'', JStr ''active'')]) (Json JNull) NetworkError init)) =
     [Fetch POST [Lit ''/api/strategies/'', Sub (JStr ''grid-1''), Lit ''/'', Lit ''pause''] None]
   \<and> filter is_post (since init (toggleStrategy
       (JObj [(''id'', JStr ''grid-1''), (''status'', JStr ''paused'')]) BadJson BadJson init)) =
     [Fetch POST [Lit ''/api/strategies/'', Sub (JStr ''grid-1''), Lit ''/'', Lit ''start''] None]
   \<and> filter is_post (since init (toggleStrategy JNull (Json JNull) NetworkError init)) = []"
  using toggleStrategy_action [of "JObj [(''id'', JStr ''grid-1''), (''status'', JStr ''active'')]"
          init "Json JNull" NetworkError]
        toggleStrategy_action [of "JObj [(''id'', JStr ''grid-1''), (''status'', JStr ''paused'')]"
          init BadJson BadJson]
        toggleStrategy_action [of JNull init "Json JNull" NetworkError]
  by (simp add: field_def)

section \<open>The daily profit chart\<close>






text \<open>
  The chart drawn for the three example trades; the order in which \<^verbatim>\<open>Object.keys\<close>
  lists dates that are written as plain digits; and a total that ends on a profit that
  does not parse: the \<open>NaN\<close> stays.
\<close>

lemma updatePnlChart_example:
  "updatePnlChart example_numbers (JArr example_trades) (initializeCharts page) =
     Returned ((initializeCharts page)\<lparr>pnl := Some ([''2024-01-05'', ''2024-01-06''], [Num 3.5, Num (-2)])\<rparr>)"
  by (simp add: updatePnlChart_def page_simps example_trades_def add_trade_def date_of_def
        example_numbers_def number_of_def or_zero_def own_properties_def is_array_index_def is_digit_def)

lemma own_properties_order:
  "own_properties [(''20240106'', Num 1), (''2024-01-05'', Num 2), (''20240105'', Num 3)] =
     [(''20240105'', Num 3), (''20240106'', Num 1), (''2024-01-05'', Num 2)]"
  by (simp add: own_properties_def is_array_index_def is_digit_def index_value_def digit_value_def)

lemma NaN_total_kept:
  "add_trades example_numbers
     [JObj [(''time'', JStr ''2024-01-05T10:00:00''), (''profit'', JNum 5)],
      JObj [(''time'', JStr ''2024-01-05T16:45:00''), (''profit'', JStr ''n/a'')]] [] =
     Some [(''2024-01-05'', NaN)]"
  by (simp add: add_trade_def date_of_def example_numbers_def number_of_def or_zero_def)

end
